theory Spec2Isabelle
  imports Complex_Main "HOL-Library.AList" "HOL-Library.Char_ord" "HOL-Library.List_Lexorder"
begin

section \<open>The project store of pkg/api/customization/project\<close>

text \<open>
  The Go file wraps a \<^verbatim>\<open>types.Store\<close> and intercepts Create, Update and Delete of
  projects. Everything it calls outside the file (the wrapped store, the two listers, the
  converters, the quota fit checker, the JSON encoder and \<^verbatim>\<open>values.PutValue\<close>) is a
  field of one of two records of collaborators, so that a theorem holds for all of
  their behaviours unless it names the converters and the checker that are modelled
  from the spec. A call of a store or a lister is recorded in a trace, which is how
  ``the store is not invoked'' is stated.
\<close>

subsection \<open>Values, errors and constants\<close>

text \<open>
  \<^verbatim>\<open>interface{}\<close> values of a decoded request body. \<^verbatim>\<open>JNull\<close> is Go's nil,
  \<^verbatim>\<open>JObj\<close> a \<^verbatim>\<open>map[string]interface{}\<close>. The code below only tells nil from
  non-nil; numbers are never inspected. The payload of a request is such a map, read
  by key; a nil map reads like the empty one.
\<close>

datatype jvalue =
    JNull
  | JBool bool
  | JNum rat
  | JStr string
  | JArr "jvalue list"
  | JObj "string \<Rightarrow> jvalue option"

type_synonym payload = "string \<Rightarrow> jvalue option"

text \<open>The error codes of the httperror package that the file uses.\<close>

datatype ErrorCode = MethodNotAllowed | MissingRequired | MaxLimitExceeded

text \<open>
  A Go \<^verbatim>\<open>error\<close>: an \<^verbatim>\<open>httperror.APIError\<close> with its code, message and field name,
  or any other error, which this file never builds and only passes on.
\<close>

datatype error =
    APIError ErrorCode string string
  | OtherError string

definition NewAPIError :: "ErrorCode \<Rightarrow> string \<Rightarrow> error" where
  "NewAPIError code message = APIError code message ''''"

definition NewFieldAPIError :: "ErrorCode \<Rightarrow> string \<Rightarrow> string \<Rightarrow> error" where
  "NewFieldAPIError code fieldName message = APIError code message fieldName"

definition roleTemplatesRequired :: string where
  "roleTemplatesRequired = ''authz.management.cattle.io/creator-role-bindings''"

definition quotaField :: string where
  "quotaField = ''resourceQuota''"

definition namespaceQuotaField :: string where
  "namespaceQuotaField = ''namespaceDefaultResourceQuota''"

subsection \<open>Go primitives\<close>

text \<open>
  \<^verbatim>\<open>strings.Split(s, sep)\<close> for a separator of one byte, the only use in the file. The
  result is never empty: a string without the separator gives the one-element list of
  the string itself.
\<close>

fun strings_Split :: "string \<Rightarrow> char \<Rightarrow> string list" where
  "strings_Split [] sep = [[]]"
| "strings_Split (c # cs) sep =
     (if c = sep then [] # strings_Split cs sep
      else (c # hd (strings_Split cs sep)) # tl (strings_Split cs sep))"

text \<open>\<^verbatim>\<open>v, ok := data[key]\<close> on a \<^verbatim>\<open>map[string]interface{}\<close>: a missing key reads as nil.\<close>

definition index_data :: "payload \<Rightarrow> string \<Rightarrow> jvalue \<times> bool" where
  "index_data data key = (case data key of None \<Rightarrow> (JNull, False) | Some v \<Rightarrow> (v, True))"

text \<open>\<^verbatim>\<open>labels[key]\<close> on a \<^verbatim>\<open>map[string]string\<close>: a missing key reads as the empty string.\<close>

definition index_label :: "(string \<Rightarrow> string option) \<Rightarrow> string \<Rightarrow> string" where
  "index_label labels key = (case labels key of None \<Rightarrow> '''' | Some v \<Rightarrow> v)"

text \<open>
  A \<^verbatim>\<open>map[string][]string\<close> is an association list with unique keys (the encoder needs
  to enumerate it). \<^verbatim>\<open>m[key]\<close> reads a missing key as the nil slice, the empty list.
\<close>

definition index_slice :: "(string \<times> string list) list \<Rightarrow> string \<Rightarrow> string list" where
  "index_slice m key = (case map_of m key of None \<Rightarrow> [] | Some v \<Rightarrow> v)"

subsection \<open>Collaborators\<close>

text \<open>The fields of \<^verbatim>\<open>v3.RoleTemplate\<close> and \<^verbatim>\<open>v3.Project\<close> that the file reads.\<close>

record RoleTemplate =
  Name :: string
  ProjectCreatorDefault :: bool
  Locked :: bool

record Project =
  Labels :: "string \<Rightarrow> string option"

text \<open>\<^verbatim>\<open>labels.NewSelector()\<close>, the selector that selects everything.\<close>

datatype Selector = NewSelector

text \<open>
  \<^verbatim>\<open>mgmtclient.NamespaceResourceQuota\<close> and \<^verbatim>\<open>mgmtclient.ProjectResourceQuota\<close>: only
  the pointer field \<^verbatim>\<open>Limit\<close> is read (two selector names, as both structs call it
  \<^verbatim>\<open>Limit\<close>). The limit structs themselves are opaque here: \<open>'q\<close> stands for
  \<^verbatim>\<open>mgmtclient.ResourceQuotaLimit\<close> and \<open>'l\<close> for \<^verbatim>\<open>v3.ResourceQuotaLimit\<close>.
\<close>

record 'q NamespaceResourceQuota =
  nsQuota_Limit :: "'q option"

record 'q ProjectResourceQuota =
  projectQuota_Limit :: "'q option"

text \<open>
  The struct \<^verbatim>\<open>projectStore\<close>: the embedded \<^verbatim>\<open>types.Store\<close> (its three methods that
  the file calls) and the two listers. A method that returns \<^verbatim>\<open>(map, error)\<close> returns a
  pair, \<open>None\<close> being nil; a lister returns its error on the left or its object on the
  right. \<open>'c\<close> is \<^verbatim>\<open>*types.APIContext\<close> and \<open>'s\<close> is \<^verbatim>\<open>*types.Schema\<close>, both only
  passed through.
\<close>

record ('c, 's) projectStore =
  Store_Create :: "'c \<Rightarrow> 's \<Rightarrow> payload \<Rightarrow> payload option \<times> error option"
  Store_Update :: "'c \<Rightarrow> 's \<Rightarrow> payload \<Rightarrow> string \<Rightarrow> payload option \<times> error option"
  Store_Delete :: "'c \<Rightarrow> 's \<Rightarrow> string \<Rightarrow> payload option \<times> error option"
  projectLister_Get :: "string \<Rightarrow> string \<Rightarrow> error + Project"
  roleTemplateLister_List :: "string \<Rightarrow> Selector \<Rightarrow> error + RoleTemplate list"

text \<open>
  The package-level functions the file calls: \<^verbatim>\<open>json.Marshal\<close> (on a
  \<^verbatim>\<open>map[string][]string\<close>), \<^verbatim>\<open>values.PutValue\<close>, \<^verbatim>\<open>convert.ToObj\<close> at its three
  uses, and \<^verbatim>\<open>resourcequota.IsQuotaFit\<close>, which returns \<^verbatim>\<open>(isFit, msg, err)\<close>. They
  read their arguments and do not write to the payload.
\<close>

record ('q, 'l) packages =
  json_Marshal :: "(string \<times> string list) list \<Rightarrow> error + string"
  values_PutValue :: "payload \<Rightarrow> jvalue \<Rightarrow> string list \<Rightarrow> payload"
  convert_ToObj_nsQuota :: "jvalue \<Rightarrow> error + 'q NamespaceResourceQuota"
  convert_ToObj_projectQuota :: "jvalue \<Rightarrow> error + 'q ProjectResourceQuota"
  convert_ToObj_limit :: "'q option \<Rightarrow> error + 'l"
  resourcequota_IsQuotaFit :: "'l \<Rightarrow> 'l list \<Rightarrow> 'l \<Rightarrow> bool \<times> string \<times> error option"

text \<open>The calls of a store or a lister, in the order they are made.\<close>

datatype ('c, 's) call =
    RoleTemplateList string Selector
  | ProjectGet string string
  | StoreCreate 'c 's payload
  | StoreUpdate 'c 's payload string
  | StoreDelete 'c 's string

text \<open>
  What a method returns and does: the returned map and error, and the trace of its
  calls. A write also has \<open>data_after\<close>, the caller's payload map as the method leaves
  it when it returns early or hands it to the store.
\<close>

record ('c, 's) outcome =
  ret_map :: "payload option"
  ret_err :: "error option"
  calls :: "('c, 's) call list"

record ('c, 's) write_outcome = "('c, 's) outcome" +
  data_after :: payload

subsection \<open>The methods of the file\<close>

text \<open>\<^verbatim>\<open>limitToLimit\<close>: one call of \<^verbatim>\<open>convert.ToObj\<close>; the caller reads the result only
  when the error is nil.\<close>

definition limitToLimit :: "('q, 'l) packages \<Rightarrow> 'q option \<Rightarrow> error + 'l" where
  "limitToLimit P from =
     (case convert_ToObj_limit P from of Inl err \<Rightarrow> Inl err | Inr to \<Rightarrow> Inr to)"

definition validateResourceQuota ::
  "('c, 's) projectStore \<Rightarrow> ('q, 'l) packages \<Rightarrow> 'c \<Rightarrow> 's \<Rightarrow> payload \<Rightarrow> string \<Rightarrow> error option"
where
  "validateResourceQuota s P apiContext schema data id' =
     (let (quotaO, quotaOk) = index_data data quotaField;
          quotaOk = (if quotaO = JNull then False else quotaOk);
          (nsQuotaO, namespaceQuotaOk) = index_data data namespaceQuotaField;
          namespaceQuotaOk = (if nsQuotaO = JNull then False else namespaceQuotaOk)
      in
        if quotaOk \<noteq> namespaceQuotaOk then
          (if quotaOk then Some (NewFieldAPIError MissingRequired namespaceQuotaField '''')
           else Some (NewFieldAPIError MissingRequired quotaField ''''))
        else
          (case convert_ToObj_nsQuota P nsQuotaO of
             Inl err \<Rightarrow> Some err
           | Inr nsQuota \<Rightarrow>
          (case convert_ToObj_projectQuota P quotaO of
             Inl err \<Rightarrow> Some err
           | Inr projectQuota \<Rightarrow>
          (case limitToLimit P (projectQuota_Limit projectQuota) of
             Inl err \<Rightarrow> Some err
           | Inr projectQuotaLimit \<Rightarrow>
          (case limitToLimit P (nsQuota_Limit nsQuota) of
             Inl err \<Rightarrow> Some err
           | Inr nsQuotaLimit \<Rightarrow>
          (let (isFit, msg, err) = resourcequota_IsQuotaFit P nsQuotaLimit [] projectQuotaLimit
           in
             if err \<noteq> None \<or> isFit then err
             else Some (NewFieldAPIError MaxLimitExceeded namespaceQuotaField
                          (''exceeds '' @ quotaField @ '' on fields: '' @ msg))))))))"

text \<open>The loop of \<^verbatim>\<open>createProjectAnnotation\<close> over the listed role templates.\<close>

fun collectRequired ::
  "RoleTemplate list \<Rightarrow> (string \<times> string list) list \<Rightarrow> (string \<times> string list) list"
where
  "collectRequired [] annoMap = annoMap"
| "collectRequired (role # rt) annoMap =
     collectRequired rt
       (if ProjectCreatorDefault role \<and> \<not> Locked role
        then AList.update ''required'' (index_slice annoMap ''required'' @ [Name role]) annoMap
        else annoMap)"

definition createProjectAnnotation ::
  "('c, 's) projectStore \<Rightarrow> ('q, 'l) packages \<Rightarrow> (error + string) \<times> ('c, 's) call list"
where
  "createProjectAnnotation s P =
     (case roleTemplateLister_List s '''' NewSelector of
        Inl err \<Rightarrow> (Inl err, [RoleTemplateList '''' NewSelector])
      | Inr rt \<Rightarrow>
          (case json_Marshal P (collectRequired rt []) of
             Inl err \<Rightarrow> (Inl err, [RoleTemplateList '''' NewSelector])
           | Inr d \<Rightarrow> (Inr d, [RoleTemplateList '''' NewSelector])))"

definition Create ::
  "('c, 's) projectStore \<Rightarrow> ('q, 'l) packages \<Rightarrow> 'c \<Rightarrow> 's \<Rightarrow> payload \<Rightarrow> ('c, 's) write_outcome"
where
  "Create s P apiContext schema data =
     (case createProjectAnnotation s P of
        (Inl err, cs) \<Rightarrow>
          \<lparr>ret_map = None, ret_err = Some err, calls = cs, data_after = data\<rparr>
      | (Inr annotation, cs) \<Rightarrow>
          (case validateResourceQuota s P apiContext schema data '''' of
             Some err \<Rightarrow>
               \<lparr>ret_map = None, ret_err = Some err, calls = cs, data_after = data\<rparr>
           | None \<Rightarrow>
               (let data' = values_PutValue P data (JStr annotation)
                              [''annotations'', roleTemplatesRequired];
                    (m, err) = Store_Create s apiContext schema data'
                in \<lparr>ret_map = m, ret_err = err,
                     calls = cs @ [StoreCreate apiContext schema data'],
                     data_after = data'\<rparr>)))"

definition Update ::
  "('c, 's) projectStore \<Rightarrow> ('q, 'l) packages \<Rightarrow> 'c \<Rightarrow> 's \<Rightarrow> payload \<Rightarrow> string
     \<Rightarrow> ('c, 's) write_outcome"
where
  "Update s P apiContext schema data id' =
     (case validateResourceQuota s P apiContext schema data id' of
        Some err \<Rightarrow>
          \<lparr>ret_map = None, ret_err = Some err, calls = [], data_after = data\<rparr>
      | None \<Rightarrow>
          (let (m, err) = Store_Update s apiContext schema data id'
           in \<lparr>ret_map = m, ret_err = err,
                calls = [StoreUpdate apiContext schema data id'],
                data_after = data\<rparr>))"

definition Delete :: "('c, 's) projectStore \<Rightarrow> 'c \<Rightarrow> 's \<Rightarrow> string \<Rightarrow> ('c, 's) outcome" where
  "Delete s apiContext schema id' =
     (let parts = strings_Split id' (CHR '':'')
      in
        case projectLister_Get s (parts ! 0) (parts ! (length parts - 1)) of
          Inl err \<Rightarrow>
            \<lparr>ret_map = None, ret_err = Some err,
             calls = [ProjectGet (parts ! 0) (parts ! (length parts - 1))]\<rparr>
        | Inr proj \<Rightarrow>
            if index_label (Labels proj) ''authz.management.cattle.io/system-project'' = ''true''
            then
              \<lparr>ret_map = None,
               ret_err = Some (NewAPIError MethodNotAllowed ''System Project cannot be deleted''),
               calls = [ProjectGet (parts ! 0) (parts ! (length parts - 1))]\<rparr>
            else
              (let (m, err) = Store_Delete s apiContext schema id'
               in \<lparr>ret_map = m, ret_err = err,
                    calls = [ProjectGet (parts ! 0) (parts ! (length parts - 1)),
                             StoreDelete apiContext schema id']\<rparr>))"

subsection \<open>Notions used to state the properties\<close>

text \<open>
  A field of the payload is present when the map has the key with a value other than
  nil: this is \<^verbatim>\<open>quotaOk\<close> and \<^verbatim>\<open>namespaceQuotaOk\<close> after the two nil checks.
\<close>

definition present :: "payload \<Rightarrow> string \<Rightarrow> bool" where
  "present data key = (case data key of None \<Rightarrow> False | Some v \<Rightarrow> v \<noteq> JNull)"

text \<open>The names that the loop of \<^verbatim>\<open>createProjectAnnotation\<close> is to collect.\<close>

definition requiredNames :: "RoleTemplate list \<Rightarrow> string list" where
  "requiredNames rt = map Name (filter (\<lambda>role. ProjectCreatorDefault role \<and> \<not> Locked role) rt)"

text \<open>\<^verbatim>\<open>strings.Join\<close>, the inverse of \<^verbatim>\<open>strings.Split\<close>.\<close>

fun strings_Join :: "string list \<Rightarrow> string \<Rightarrow> string" where
  "strings_Join [] sep = []"
| "strings_Join [a] sep = a"
| "strings_Join (a # b # elems) sep = a @ sep @ strings_Join (b # elems) sep"

subsection \<open>The quota collaborators, modelled from the spec\<close>

text \<open>
  A limit set of the spec: the quantity string of each resource name that it bounds,
  with unique names.
\<close>

type_synonym limitSet = "(string \<times> string) list"

text \<open>
  Modelled from the spec: \<^verbatim>\<open>resourcequota.IsQuotaFit\<close> is not in the file. Section 4.2:
  for each resource name of the child the same name is looked up in the parent; a name
  that the parent lacks is unbounded and fits; otherwise both quantities are parsed, a
  parse error is propagated, and the resource fits when the magnitude of the child is at
  most that of the parent. The child fits only if each of its resources does, and the
  message joins the names of all resources that do not. The quantity parser of section
  4.1 is the parameter \<open>parse\<close>. The file passes no intermediate tier, and none is
  looked at.
\<close>

fun spec_violations ::
  "(string \<Rightarrow> error + rat) \<Rightarrow> limitSet \<Rightarrow> limitSet \<Rightarrow> error + string list" where
  "spec_violations parse parent [] = Inr []"
| "spec_violations parse parent ((name, quantity) # child) =
     (case map_of parent name of
        None \<Rightarrow> spec_violations parse parent child
      | Some bound \<Rightarrow>
          (case parse quantity of
             Inl err \<Rightarrow> Inl err
           | Inr c \<Rightarrow>
               (case parse bound of
                  Inl err \<Rightarrow> Inl err
                | Inr p \<Rightarrow>
                    (case spec_violations parse parent child of
                       Inl err \<Rightarrow> Inl err
                     | Inr names \<Rightarrow> Inr (if c \<le> p then names else name # names)))))"

definition spec_IsQuotaFit ::
  "(string \<Rightarrow> error + rat) \<Rightarrow> limitSet \<Rightarrow> limitSet list \<Rightarrow> limitSet
     \<Rightarrow> bool \<times> string \<times> error option" where
  "spec_IsQuotaFit parse child intermediate parent =
     (case spec_violations parse parent child of
        Inl err \<Rightarrow> (False, '''', Some err)
      | Inr names \<Rightarrow> (names = [], strings_Join names '','', None))"

text \<open>
  Modelled from the spec: \<^verbatim>\<open>convert.ToObj\<close> is not in the file. Step 4 of the
  validation procedure: a structural conversion of a quota into its limit set, which
  fails with a conversion error on a malformed shape. What it does with a quota or a
  limit that is there is left open, as the parameters \<open>toQuota\<close> and \<open>toLimit\<close>. The
  code converts the nil of an absent quota as well, and the nil limit of a quota without
  one: nil is the JSON null, which leaves the converted struct as it was declared, a
  quota without a limit and a limit set without a resource.
\<close>

definition spec_ToObj_nsQuota ::
  "(jvalue \<Rightarrow> error + 'q NamespaceResourceQuota) \<Rightarrow> jvalue
     \<Rightarrow> error + 'q NamespaceResourceQuota" where
  "spec_ToObj_nsQuota toQuota v =
     (if v = JNull then Inr \<lparr>nsQuota_Limit = None\<rparr> else toQuota v)"

definition spec_ToObj_projectQuota ::
  "(jvalue \<Rightarrow> error + 'q ProjectResourceQuota) \<Rightarrow> jvalue
     \<Rightarrow> error + 'q ProjectResourceQuota" where
  "spec_ToObj_projectQuota toQuota v =
     (if v = JNull then Inr \<lparr>projectQuota_Limit = None\<rparr> else toQuota v)"

definition spec_ToObj_limit :: "('q \<Rightarrow> error + limitSet) \<Rightarrow> 'q option \<Rightarrow> error + limitSet" where
  "spec_ToObj_limit toLimit from = (case from of None \<Rightarrow> Inr [] | Some l \<Rightarrow> toLimit l)"

text \<open>
  The packages with these converters and this checker, for any encoder and any
  \<^verbatim>\<open>values.PutValue\<close>.
\<close>

definition spec_packages ::
  "((string \<times> string list) list \<Rightarrow> error + string)
     \<Rightarrow> (payload \<Rightarrow> jvalue \<Rightarrow> string list \<Rightarrow> payload)
     \<Rightarrow> (jvalue \<Rightarrow> error + 'q NamespaceResourceQuota)
     \<Rightarrow> (jvalue \<Rightarrow> error + 'q ProjectResourceQuota)
     \<Rightarrow> ('q \<Rightarrow> error + limitSet)
     \<Rightarrow> (string \<Rightarrow> error + rat)
     \<Rightarrow> ('q, limitSet) packages" where
  "spec_packages marshal putValue toNsQuota toProjectQuota toLimit parse =
     \<lparr>json_Marshal = marshal,
      values_PutValue = putValue,
      convert_ToObj_nsQuota = spec_ToObj_nsQuota toNsQuota,
      convert_ToObj_projectQuota = spec_ToObj_projectQuota toProjectQuota,
      convert_ToObj_limit = spec_ToObj_limit toLimit,
      resourcequota_IsQuotaFit = spec_IsQuotaFit parse\<rparr>"

subsection \<open>An instance of the collaborators\<close>

text \<open>
  To run the methods on concrete requests, this section fixes one instance of the
  collaborators. Its limit sets hold one resource, \<^verbatim>\<open>pods\<close>, with a number as its
  quantity.
\<close>

text \<open>
  \<^verbatim>\<open>values.PutValue\<close> of the norman library: it stores the value at the path of keys,
  makes a missing object on the way and gives up at a value on the way that is not an
  object. The nested Go maps are written in place; here the enclosing object is rebuilt.
\<close>

fun PutValue :: "payload \<Rightarrow> jvalue \<Rightarrow> string list \<Rightarrow> payload" where
  "PutValue data val [] = data"
| "PutValue data val [key] = data(key \<mapsto> val)"
| "PutValue data val (key # k # keys) =
     (case data key of
        None \<Rightarrow> data(key \<mapsto> JObj (PutValue Map.empty val (k # keys)))
      | Some (JObj newMap) \<Rightarrow> data(key \<mapsto> JObj (PutValue newMap val (k # keys)))
      | Some _ \<Rightarrow> data)"

text \<open>
  \<^verbatim>\<open>json.Marshal\<close> on a \<^verbatim>\<open>map[string][]string\<close> whose strings need no escaping: a
  compact object with its keys in sorted order. It never fails.
\<close>

definition json_string :: "string \<Rightarrow> string" where
  "json_string s = CHR 0x22 # s @ [CHR 0x22]"

definition Marshal_plain :: "(string \<times> string list) list \<Rightarrow> error + string" where
  "Marshal_plain m =
     Inr (''{'' @
          strings_Join
            (map (\<lambda>(k, vs). json_string k @ '':['' @ strings_Join (map json_string vs) '','' @ '']'')
               (sort_key fst m)) '','' @
          ''}'')"

text \<open>The conversions of a quota object \<^verbatim>\<open>{"limit": {"pods": n}}\<close> and of its limit.\<close>

definition demo_Limit :: "jvalue \<Rightarrow> (string \<times> rat) list option" where
  "demo_Limit v =
     (case v of
        JObj q \<Rightarrow>
          (case q ''limit'' of
             Some (JObj l) \<Rightarrow>
               Some (case l ''pods'' of Some (JNum n) \<Rightarrow> [(''pods'', n)] | _ \<Rightarrow> [])
           | _ \<Rightarrow> None)
      | _ \<Rightarrow> None)"

definition demo_ToObj_nsQuota ::
  "jvalue \<Rightarrow> error + ((string \<times> rat) list) NamespaceResourceQuota" where
  "demo_ToObj_nsQuota v =
     (case v of
        JNull \<Rightarrow> Inr \<lparr>nsQuota_Limit = None\<rparr>
      | JObj q \<Rightarrow> Inr \<lparr>nsQuota_Limit = demo_Limit v\<rparr>
      | _ \<Rightarrow> Inl (OtherError ''json: cannot unmarshal into Go value''))"

definition demo_ToObj_projectQuota ::
  "jvalue \<Rightarrow> error + ((string \<times> rat) list) ProjectResourceQuota" where
  "demo_ToObj_projectQuota v =
     (case v of
        JNull \<Rightarrow> Inr \<lparr>projectQuota_Limit = None\<rparr>
      | JObj q \<Rightarrow> Inr \<lparr>projectQuota_Limit = demo_Limit v\<rparr>
      | _ \<Rightarrow> Inl (OtherError ''json: cannot unmarshal into Go value''))"

definition demo_ToObj_limit :: "(string \<times> rat) list option \<Rightarrow> error + (string \<times> rat) list" where
  "demo_ToObj_limit from = Inr (case from of None \<Rightarrow> [] | Some l \<Rightarrow> l)"

text \<open>
  Modelled from the spec: \<^verbatim>\<open>resourcequota.IsQuotaFit\<close> is not in the file. Following
  section 4.2 of the spec, a resource of the child that the parent also bounds must not
  exceed the parent's bound; the message joins the names of all resources that do. No
  intermediate tier is ever passed by the file, and none is looked at here.
\<close>

definition demo_IsQuotaFit ::
  "(string \<times> rat) list \<Rightarrow> (string \<times> rat) list list \<Rightarrow> (string \<times> rat) list
     \<Rightarrow> bool \<times> string \<times> error option" where
  "demo_IsQuotaFit child intermediate parent =
     (let exceeded =
            map fst (filter (\<lambda>(k, v). case map_of parent k of None \<Rightarrow> False | Some b \<Rightarrow> b < v) child)
      in (exceeded = [], strings_Join exceeded '','', None))"

definition demo_packages :: "((string \<times> rat) list, (string \<times> rat) list) packages" where
  "demo_packages =
     \<lparr>json_Marshal = Marshal_plain,
      values_PutValue = PutValue,
      convert_ToObj_nsQuota = demo_ToObj_nsQuota,
      convert_ToObj_projectQuota = demo_ToObj_projectQuota,
      convert_ToObj_limit = demo_ToObj_limit,
      resourcequota_IsQuotaFit = demo_IsQuotaFit\<rparr>"

text \<open>
  A store that answers every write with the payload it was given, a project lister that
  knows the system project \<^verbatim>\<open>c-1:p-sys\<close> and the plain project \<^verbatim>\<open>c-1:p-1\<close>, and a role
  template lister that returns the given list.
\<close>

definition demo_Get :: "string \<Rightarrow> string \<Rightarrow> error + Project" where
  "demo_Get namespace name =
     (if namespace = ''c-1'' \<and> name = ''p-sys''
      then Inr \<lparr>Labels = [''authz.management.cattle.io/system-project'' \<mapsto> ''true'']\<rparr>
      else if namespace = ''c-1'' \<and> name = ''p-1''
      then Inr \<lparr>Labels = Map.empty\<rparr>
      else Inl (OtherError ''project not found''))"

definition demo_store :: "RoleTemplate list \<Rightarrow> (unit, unit) projectStore" where
  "demo_store rt =
     \<lparr>Store_Create = (\<lambda>apiContext schema data. (Some data, None)),
      Store_Update = (\<lambda>apiContext schema data id'. (Some data, None)),
      Store_Delete = (\<lambda>apiContext schema id'. (Some Map.empty, None)),
      projectLister_Get = demo_Get,
      roleTemplateLister_List = (\<lambda>namespace selector. Inr rt)\<rparr>"

definition demo_roleTemplates :: "RoleTemplate list" where
  "demo_roleTemplates =
     [\<lparr>Name = ''owner'', ProjectCreatorDefault = True, Locked = False\<rparr>,
      \<lparr>Name = ''editor'', ProjectCreatorDefault = True, Locked = False\<rparr>,
      \<lparr>Name = ''legacy'', ProjectCreatorDefault = True, Locked = True\<rparr>]"

text \<open>Payloads: a quota object, and a project with both quotas.\<close>

definition demo_quota :: "rat \<Rightarrow> jvalue" where
  "demo_quota n = JObj [''limit'' \<mapsto> JObj [''pods'' \<mapsto> JNum n]]"

definition demo_project :: "rat \<Rightarrow> rat \<Rightarrow> payload" where
  "demo_project p n =
     [''name'' \<mapsto> JStr ''team-a'',
      ''resourceQuota'' \<mapsto> demo_quota p,
      ''namespaceDefaultResourceQuota'' \<mapsto> demo_quota n]"

text \<open>
  The packages modelled from the spec with the plain encoder, \<^verbatim>\<open>PutValue\<close>, and a
  parser and conversions that reject whatever they are given.
\<close>

definition spec_demo_packages :: "(unit, limitSet) packages" where
  "spec_demo_packages =
     spec_packages Marshal_plain PutValue
       (\<lambda>v. Inl (OtherError ''malformed quota''))
       (\<lambda>v. Inl (OtherError ''malformed quota''))
       (\<lambda>l. Inl (OtherError ''malformed limit''))
       (\<lambda>q. Inl (OtherError ''malformed quantity''))"

section \<open>Properties\<close>

subsection \<open>Splitting and joining\<close>

lemma strings_Split_nonempty: "strings_Split s sep \<noteq> []"
  by (induction s) auto

lemma strings_Split_index:
  "strings_Split s sep ! 0 = hd (strings_Split s sep)"
  "strings_Split s sep ! (length (strings_Split s sep) - 1) = last (strings_Split s sep)"
  using strings_Split_nonempty [of s sep]
  by (simp_all add: hd_conv_nth last_conv_nth)

lemma strings_Split_no_sep: "sep \<notin> set s \<Longrightarrow> strings_Split s sep = [s]"
  by (induction s) auto

lemma strings_Split_parts: "p \<in> set (strings_Split s sep) \<Longrightarrow> sep \<notin> set p"
proof (induction s arbitrary: p)
  case Nil
  then show ?case by simp
next
  case (Cons c cs)
  obtain x xs where split: "strings_Split cs sep = x # xs"
    using strings_Split_nonempty [of cs sep] by (cases "strings_Split cs sep") auto
  show ?case
  proof (cases "c = sep")
    case True
    with Cons show ?thesis by auto
  next
    case False
    with Cons.prems split have "p = c # x \<or> p \<in> set xs" by simp
    with Cons.IH split False show ?thesis by auto
  qed
qed

lemma strings_Join_Cons:
  "xs \<noteq> [] \<Longrightarrow> strings_Join (a # xs) sep = a @ sep @ strings_Join xs sep"
  by (cases xs) auto

lemma strings_Join_Split: "strings_Join (strings_Split s sep) [sep] = s"
proof (induction s)
  case Nil
  then show ?case by simp
next
  case (Cons c cs)
  obtain x xs where split: "strings_Split cs sep = x # xs"
    using strings_Split_nonempty [of cs sep] by (cases "strings_Split cs sep") auto
  show ?case
  proof (cases "c = sep")
    case True
    with Cons show ?thesis by (simp add: strings_Join_Cons strings_Split_nonempty)
  next
    case False
    with Cons split show ?thesis by (cases xs) auto
  qed
qed

subsection \<open>Facts about the methods\<close>

lemma snd_createProjectAnnotation:
  "snd (createProjectAnnotation s P) = [RoleTemplateList '''' NewSelector]"
  by (simp add: createProjectAnnotation_def split: sum.splits)

lemma index_data_present:
  "(case index_data data key of (v, ok) \<Rightarrow> if v = JNull then False else ok) = present data key"
  by (simp add: index_data_def present_def split: option.splits)

lemma index_data_fst_absent: "\<not> present data key \<Longrightarrow> fst (index_data data key) = JNull"
  by (simp add: index_data_def present_def split: option.splits)

lemma index_data_Some: "data key = Some v \<Longrightarrow> fst (index_data data key) = v"
  by (simp add: index_data_def)

lemma present_Some: "data key = Some v \<Longrightarrow> present data key \<longleftrightarrow> v \<noteq> JNull"
  by (simp add: present_def)

lemma collectRequired_acc:
  "annoMap = (if names = [] then [] else [(''required'', names)]) \<Longrightarrow>
   collectRequired rt annoMap =
     (if names @ requiredNames rt = [] then [] else [(''required'', names @ requiredNames rt)])"
proof (induction rt arbitrary: annoMap names)
  case Nil
  then show ?case by (simp add: requiredNames_def)
next
  case (Cons role rt)
  show ?case
  proof (cases "ProjectCreatorDefault role \<and> \<not> Locked role")
    case True
    let ?names = "names @ [Name role]"
    have "AList.update ''required'' (index_slice annoMap ''required'' @ [Name role]) annoMap
            = (if ?names = [] then [] else [(''required'', ?names)])"
      using Cons.prems by (simp add: index_slice_def)
    from Cons.IH [OF this] True show ?thesis
      by (simp add: requiredNames_def)
  next
    case False
    from Cons.IH [OF Cons.prems] False show ?thesis
      by (auto simp add: requiredNames_def)
  qed
qed

lemma collectRequired_eq:
  "collectRequired rt [] =
     (if requiredNames rt = [] then [] else [(''required'', requiredNames rt)])"
  using collectRequired_acc [of "[]" "[]" rt] by simp

text \<open>With exactly one of the two quota fields present, validation names the other one.\<close>

lemma validate_presence:
  "present data quotaField \<noteq> present data namespaceQuotaField \<Longrightarrow>
   validateResourceQuota s P apiContext schema data id' =
     Some (APIError MissingRequired ''''
             (if present data quotaField then namespaceQuotaField else quotaField))"
  by (auto simp add: validateResourceQuota_def NewFieldAPIError_def index_data_def present_def
      split: option.splits)

text \<open>
  When the two fields are both present or both absent and the four conversions succeed,
  the result of validation is decided by the fit checker.
\<close>

lemma validate_checked:
  assumes "present data quotaField = present data namespaceQuotaField"
    and "convert_ToObj_nsQuota P (fst (index_data data namespaceQuotaField)) = Inr nsQuota"
    and "convert_ToObj_projectQuota P (fst (index_data data quotaField)) = Inr projectQuota"
    and "limitToLimit P (projectQuota_Limit projectQuota) = Inr projectQuotaLimit"
    and "limitToLimit P (nsQuota_Limit nsQuota) = Inr nsQuotaLimit"
  shows "validateResourceQuota s P apiContext schema data id' =
           (case resourcequota_IsQuotaFit P nsQuotaLimit [] projectQuotaLimit of
              (isFit, msg, err) \<Rightarrow>
                if err \<noteq> None \<or> isFit then err
                else Some (APIError MaxLimitExceeded
                             (''exceeds resourceQuota on fields: '' @ msg)
                             ''namespaceDefaultResourceQuota''))"
proof -
  obtain quotaO quotaOk where q: "index_data data quotaField = (quotaO, quotaOk)"
    by (cases "index_data data quotaField")
  obtain nsQuotaO nsQuotaOk where n: "index_data data namespaceQuotaField = (nsQuotaO, nsQuotaOk)"
    by (cases "index_data data namespaceQuotaField")
  have pq: "(if quotaO = JNull then False else quotaOk) = present data quotaField"
    using index_data_present [of data quotaField] by (simp add: q)
  have pn: "(if nsQuotaO = JNull then False else nsQuotaOk) = present data namespaceQuotaField"
    using index_data_present [of data namespaceQuotaField] by (simp add: n)
  have a2: "convert_ToObj_nsQuota P nsQuotaO = Inr nsQuota"
    using assms(2) by (simp add: n)
  have a3: "convert_ToObj_projectQuota P quotaO = Inr projectQuota"
    using assms(3) by (simp add: q)
  show ?thesis
    unfolding validateResourceQuota_def q n Let_def prod.case pq pn
    using assms(1,4,5) a2 a3
    by (simp add: NewFieldAPIError_def quotaField_def namespaceQuotaField_def
        split: prod.splits)
qed

text \<open>
  Delete, with the two indexings of \<^verbatim>\<open>parts\<close> read as its first and last element and
  the label read from the map.
\<close>

lemma Delete_by_segments:
  "Delete s apiContext schema id' =
     (case projectLister_Get s (hd (strings_Split id' (CHR '':'')))
             (last (strings_Split id' (CHR '':''))) of
        Inl err \<Rightarrow>
          \<lparr>ret_map = None, ret_err = Some err,
           calls = [ProjectGet (hd (strings_Split id' (CHR '':'')))
                      (last (strings_Split id' (CHR '':'')))]\<rparr>
      | Inr proj \<Rightarrow>
          if Labels proj ''authz.management.cattle.io/system-project'' = Some ''true''
          then
            \<lparr>ret_map = None,
             ret_err = Some (APIError MethodNotAllowed ''System Project cannot be deleted'' ''''),
             calls = [ProjectGet (hd (strings_Split id' (CHR '':'')))
                        (last (strings_Split id' (CHR '':'')))]\<rparr>
          else
            \<lparr>ret_map = fst (Store_Delete s apiContext schema id'),
             ret_err = snd (Store_Delete s apiContext schema id'),
             calls = [ProjectGet (hd (strings_Split id' (CHR '':'')))
                        (last (strings_Split id' (CHR '':''))),
                      StoreDelete apiContext schema id']\<rparr>)"
proof -
  have l: "index_label (Labels proj) k = ''true'' \<longleftrightarrow> Labels proj k = Some ''true''"
    for proj :: Project and k
    by (simp add: index_label_def split: option.splits)
  show ?thesis
    unfolding Delete_def Let_def strings_Split_index l NewAPIError_def
    by (simp split: sum.splits prod.splits)
qed

subsection \<open>Facts about the instance\<close>

text \<open>
  Facts about the instance: its conversions of a quota object and of nil, and its
  checker on one resource.
\<close>

lemma demo_conversions:
  "convert_ToObj_nsQuota demo_packages (demo_quota n) = Inr \<lparr>nsQuota_Limit = Some [(''pods'', n)]\<rparr>"
  "convert_ToObj_projectQuota demo_packages (demo_quota n)
     = Inr \<lparr>projectQuota_Limit = Some [(''pods'', n)]\<rparr>"
  "convert_ToObj_nsQuota demo_packages JNull = Inr \<lparr>nsQuota_Limit = None\<rparr>"
  "convert_ToObj_projectQuota demo_packages JNull = Inr \<lparr>projectQuota_Limit = None\<rparr>"
  "limitToLimit demo_packages (Some l) = Inr l"
  "limitToLimit demo_packages None = Inr []"
  by (simp_all add: demo_packages_def demo_ToObj_nsQuota_def demo_ToObj_projectQuota_def
      demo_quota_def demo_Limit_def demo_ToObj_limit_def limitToLimit_def)

lemma demo_fit:
  "resourcequota_IsQuotaFit demo_packages [(''pods'', n)] [] [(''pods'', p)]
     = (if p < n then (False, ''pods'', None) else (True, '''', None))"
  "resourcequota_IsQuotaFit demo_packages [] [] [] = (True, '''', None)"
  by (simp_all add: demo_packages_def demo_IsQuotaFit_def)

lemma demo_project_fields:
  "demo_project p n quotaField = Some (demo_quota p)"
  "demo_project p n namespaceQuotaField = Some (demo_quota n)"
  "demo_quota p \<noteq> JNull"
  by (simp_all add: demo_project_def quotaField_def namespaceQuotaField_def demo_quota_def)

lemma demo_annotation:
  "createProjectAnnotation (demo_store rt) demo_packages =
     (Marshal_plain (if requiredNames rt = [] then [] else [(''required'', requiredNames rt)]),
      [RoleTemplateList '''' NewSelector])"
  by (simp add: createProjectAnnotation_def demo_store_def demo_packages_def collectRequired_eq
      Marshal_plain_def)

text \<open>
  With the collaborators modelled from the spec, the nil of an absent quota converts to
  a quota without limit, that to the empty limit set, and the empty limit set fits.
\<close>

lemma spec_nil_conversions:
  "convert_ToObj_nsQuota (spec_packages marshal putValue toNsQuota toProjectQuota toLimit parse)
     JNull = Inr \<lparr>nsQuota_Limit = None\<rparr>"
  "convert_ToObj_projectQuota
     (spec_packages marshal putValue toNsQuota toProjectQuota toLimit parse)
     JNull = Inr \<lparr>projectQuota_Limit = None\<rparr>"
  "limitToLimit (spec_packages marshal putValue toNsQuota toProjectQuota toLimit parse) None
     = Inr []"
  by (simp_all add: spec_packages_def spec_ToObj_nsQuota_def spec_ToObj_projectQuota_def
      spec_ToObj_limit_def limitToLimit_def)

lemma spec_empty_fits:
  "resourcequota_IsQuotaFit
     (spec_packages marshal putValue toNsQuota toProjectQuota toLimit parse) [] [] parent
     = (True, '''', None)"
  by (simp add: spec_packages_def spec_IsQuotaFit_def)

section \<open>The claims\<close>

text \<open>
  Claim C1. When exactly one of \<^verbatim>\<open>resourceQuota\<close> and
  \<^verbatim>\<open>namespaceDefaultResourceQuota\<close> is present in the payload (a nil value counting as
  absent), \<^verbatim>\<open>validateResourceQuota\<close> returns a MissingRequired field error that names
  the absent field. Update then returns this error without a call of the store, and
  Create returns an error (this one, unless the annotation could not be computed) after
  the listing of the role templates as its only call; neither writes to the payload.
\<close>

theorem one_quota_missing_required:
  assumes "present data quotaField \<noteq> present data namespaceQuotaField"
  shows "validateResourceQuota s P apiContext schema data id' =
           Some (APIError MissingRequired ''''
                   (if present data quotaField then namespaceQuotaField else quotaField))
       \<and> Update s P apiContext schema data id' =
           \<lparr>ret_map = None,
            ret_err = Some (APIError MissingRequired ''''
                              (if present data quotaField then namespaceQuotaField else quotaField)),
            calls = [], data_after = data\<rparr>
       \<and> Create s P apiContext schema data =
           \<lparr>ret_map = None,
            ret_err = Some (case fst (createProjectAnnotation s P) of
                              Inl err \<Rightarrow> err
                            | Inr annotation \<Rightarrow>
                                APIError MissingRequired ''''
                                  (if present data quotaField then namespaceQuotaField
                                   else quotaField)),
            calls = [RoleTemplateList '''' NewSelector], data_after = data\<rparr>"
proof -
  let ?e = "APIError MissingRequired ''''
              (if present data quotaField then namespaceQuotaField else quotaField)"
  have v: "validateResourceQuota s P apiContext schema data i = Some ?e" for i
    using assms by (rule validate_presence)
  have u: "Update s P apiContext schema data id' =
             \<lparr>ret_map = None, ret_err = Some ?e, calls = [], data_after = data\<rparr>"
    by (simp add: Update_def v)
  obtain r cs where a: "createProjectAnnotation s P = (r, cs)"
    by (cases "createProjectAnnotation s P")
  with snd_createProjectAnnotation [of s P] have cs: "cs = [RoleTemplateList '''' NewSelector]"
    by simp
  have c: "Create s P apiContext schema data =
             \<lparr>ret_map = None,
              ret_err = Some (case fst (createProjectAnnotation s P) of
                                Inl err \<Rightarrow> err | Inr annotation \<Rightarrow> ?e),
              calls = [RoleTemplateList '''' NewSelector], data_after = data\<rparr>"
    by (cases r) (simp_all add: Create_def a v cs)
  from v u c show ?thesis by simp
qed

text \<open>
  C1 on a payload with only \<^verbatim>\<open>resourceQuota\<close>, and on one whose \<^verbatim>\<open>resourceQuota\<close> is
  nil.
\<close>

theorem one_quota_missing_required_witness:
  "present [''resourceQuota'' \<mapsto> demo_quota 10] quotaField
     \<noteq> present [''resourceQuota'' \<mapsto> demo_quota 10] namespaceQuotaField
   \<and> validateResourceQuota (demo_store demo_roleTemplates) demo_packages () ()
       [''resourceQuota'' \<mapsto> demo_quota 10] ''c-1:p-1''
     = Some (APIError MissingRequired '''' ''namespaceDefaultResourceQuota'')
   \<and> calls (Update (demo_store demo_roleTemplates) demo_packages () ()
       [''resourceQuota'' \<mapsto> demo_quota 10] ''c-1:p-1'') = []
   \<and> calls (Create (demo_store demo_roleTemplates) demo_packages () ()
       [''resourceQuota'' \<mapsto> demo_quota 10]) = [RoleTemplateList '''' NewSelector]
   \<and> present [''resourceQuota'' \<mapsto> JNull, ''namespaceDefaultResourceQuota'' \<mapsto> demo_quota 5]
       quotaField
     \<noteq> present [''resourceQuota'' \<mapsto> JNull, ''namespaceDefaultResourceQuota'' \<mapsto> demo_quota 5]
       namespaceQuotaField
   \<and> validateResourceQuota (demo_store demo_roleTemplates) demo_packages () ()
       [''resourceQuota'' \<mapsto> JNull, ''namespaceDefaultResourceQuota'' \<mapsto> demo_quota 5] ''''
     = Some (APIError MissingRequired '''' ''resourceQuota'')"
proof -
  let ?only = "[''resourceQuota'' \<mapsto> demo_quota 10]"
  let ?nil = "[''resourceQuota'' \<mapsto> JNull, ''namespaceDefaultResourceQuota'' \<mapsto> demo_quota 5]"
  have h1: "present ?only quotaField \<noteq> present ?only namespaceQuotaField"
    by (simp add: present_def quotaField_def namespaceQuotaField_def demo_quota_def)
  have p1: "present ?only quotaField"
    by (simp add: present_def quotaField_def demo_quota_def)
  have h2: "present ?nil quotaField \<noteq> present ?nil namespaceQuotaField"
    by (simp add: present_def quotaField_def namespaceQuotaField_def demo_quota_def)
  have p2: "\<not> present ?nil quotaField"
    by (simp add: present_def quotaField_def demo_quota_def)
  from one_quota_missing_required
         [OF h1, of "demo_store demo_roleTemplates" demo_packages "()" "()" "''c-1:p-1''"]
       one_quota_missing_required
         [OF h2, of "demo_store demo_roleTemplates" demo_packages "()" "()" "''''"]
       h1 p1 h2 p2
  show ?thesis by (simp add: namespaceQuotaField_def quotaField_def)
qed

text \<open>
  Claim C2. When the lookup of the project succeeds, Delete returns MethodNotAllowed
  with the message ``System Project cannot be deleted'' and calls nothing but the lookup
  if the label \<^verbatim>\<open>authz.management.cattle.io/system-project\<close> is the string
  \<^verbatim>\<open>true\<close>; for any other value of the label, or none, it calls the store's Delete
  with the same arguments and returns what the store returns.
\<close>

theorem Delete_system_project:
  assumes "projectLister_Get s (hd (strings_Split id' (CHR '':'')))
             (last (strings_Split id' (CHR '':''))) = Inr proj"
  shows "(Labels proj ''authz.management.cattle.io/system-project'' = Some ''true'' \<longrightarrow>
            Delete s apiContext schema id' =
              \<lparr>ret_map = None,
               ret_err = Some (APIError MethodNotAllowed ''System Project cannot be deleted'' ''''),
               calls = [ProjectGet (hd (strings_Split id' (CHR '':'')))
                          (last (strings_Split id' (CHR '':'')))]\<rparr>)
       \<and> (Labels proj ''authz.management.cattle.io/system-project'' \<noteq> Some ''true'' \<longrightarrow>
            Delete s apiContext schema id' =
              \<lparr>ret_map = fst (Store_Delete s apiContext schema id'),
               ret_err = snd (Store_Delete s apiContext schema id'),
               calls = [ProjectGet (hd (strings_Split id' (CHR '':'')))
                          (last (strings_Split id' (CHR '':''))),
                        StoreDelete apiContext schema id']\<rparr>)"
  using assms by (simp add: Delete_by_segments)

text \<open>C2 on the system project and on a plain project.\<close>

theorem Delete_system_project_witness:
  "projectLister_Get (demo_store []) (hd (strings_Split ''c-1:p-sys'' (CHR '':'')))
     (last (strings_Split ''c-1:p-sys'' (CHR '':'')))
     = Inr \<lparr>Labels = [''authz.management.cattle.io/system-project'' \<mapsto> ''true'']\<rparr>
   \<and> Delete (demo_store []) () () ''c-1:p-sys'' =
       \<lparr>ret_map = None,
        ret_err = Some (APIError MethodNotAllowed ''System Project cannot be deleted'' ''''),
        calls = [ProjectGet ''c-1'' ''p-sys'']\<rparr>
   \<and> projectLister_Get (demo_store []) (hd (strings_Split ''c-1:p-1'' (CHR '':'')))
       (last (strings_Split ''c-1:p-1'' (CHR '':''))) = Inr \<lparr>Labels = Map.empty\<rparr>
   \<and> Delete (demo_store []) () () ''c-1:p-1'' =
       \<lparr>ret_map = Some Map.empty, ret_err = None,
        calls = [ProjectGet ''c-1'' ''p-1'', StoreDelete () () ''c-1:p-1'']\<rparr>"
proof -
  have g1: "projectLister_Get (demo_store []) (hd (strings_Split ''c-1:p-sys'' (CHR '':'')))
              (last (strings_Split ''c-1:p-sys'' (CHR '':'')))
            = Inr \<lparr>Labels = [''authz.management.cattle.io/system-project'' \<mapsto> ''true'']\<rparr>"
    by (simp add: demo_store_def demo_Get_def)
  have g2: "projectLister_Get (demo_store []) (hd (strings_Split ''c-1:p-1'' (CHR '':'')))
              (last (strings_Split ''c-1:p-1'' (CHR '':''))) = Inr \<lparr>Labels = Map.empty\<rparr>"
    by (simp add: demo_store_def demo_Get_def)
  have s: "Store_Delete (demo_store []) () () ''c-1:p-1'' = (Some Map.empty, None)"
    by (simp add: demo_store_def)
  from Delete_system_project [OF g1, of "()" "()"] Delete_system_project [OF g2, of "()" "()"]
    g1 g2 s
  show ?thesis by simp
qed

text \<open>
  Claim C3. When the listing of the role templates succeeds, the annotation is the JSON
  encoding of the map that the loop builds. Read at \<^verbatim>\<open>required\<close>, this map gives the
  names of exactly the templates that are project-creator-default and not locked, in
  the order of the listing, and it has no other key (with no such template the map has
  no key, and reads as the empty list there). For the templates owner and editor
  (default, unlocked) and legacy (default, locked) the map is
  \<^verbatim>\<open>{"required": ["owner", "editor"]}\<close>. Every Create starts with the listing, and
  when the encoding succeeds and validation passes, this annotation is the value that
  Create gives to \<^verbatim>\<open>values.PutValue\<close> for the path \<^verbatim>\<open>annotations\<close>, reserved key, on
  the payload that it then hands to the store.
\<close>

theorem annotation_lists_required:
  assumes "roleTemplateLister_List s '''' NewSelector = Inr rt"
  shows "fst (createProjectAnnotation s P) = json_Marshal P (collectRequired rt [])
       \<and> index_slice (collectRequired rt []) ''required''
           = map Name (filter (\<lambda>role. ProjectCreatorDefault role \<and> \<not> Locked role) rt)
       \<and> set (map fst (collectRequired rt [])) \<subseteq> {''required''}
       \<and> collectRequired
            [\<lparr>Name = ''owner'', ProjectCreatorDefault = True, Locked = False\<rparr>,
             \<lparr>Name = ''editor'', ProjectCreatorDefault = True, Locked = False\<rparr>,
             \<lparr>Name = ''legacy'', ProjectCreatorDefault = True, Locked = True\<rparr>] []
           = [(''required'', [''owner'', ''editor''])]
       \<and> hd (calls (Create s P apiContext schema data)) = RoleTemplateList '''' NewSelector
       \<and> (\<forall>d. json_Marshal P (collectRequired rt []) = Inr d
              \<and> validateResourceQuota s P apiContext schema data '''' = None \<longrightarrow>
            Create s P apiContext schema data =
              \<lparr>ret_map = fst (Store_Create s apiContext schema
                                (values_PutValue P data (JStr d)
                                   [''annotations'', roleTemplatesRequired])),
               ret_err = snd (Store_Create s apiContext schema
                                (values_PutValue P data (JStr d)
                                   [''annotations'', roleTemplatesRequired])),
               calls = [RoleTemplateList '''' NewSelector,
                        StoreCreate apiContext schema
                          (values_PutValue P data (JStr d)
                             [''annotations'', roleTemplatesRequired])],
               data_after = values_PutValue P data (JStr d)
                              [''annotations'', roleTemplatesRequired]\<rparr>)"
proof -
  have "fst (createProjectAnnotation s P) = json_Marshal P (collectRequired rt [])"
    using assms by (simp add: createProjectAnnotation_def split: sum.splits)
  moreover have "index_slice (collectRequired rt []) ''required''
      = map Name (filter (\<lambda>role. ProjectCreatorDefault role \<and> \<not> Locked role) rt)"
    by (simp add: collectRequired_eq index_slice_def requiredNames_def)
  moreover have "set (map fst (collectRequired rt [])) \<subseteq> {''required''}"
    by (simp add: collectRequired_eq)
  moreover have "collectRequired
            [\<lparr>Name = ''owner'', ProjectCreatorDefault = True, Locked = False\<rparr>,
             \<lparr>Name = ''editor'', ProjectCreatorDefault = True, Locked = False\<rparr>,
             \<lparr>Name = ''legacy'', ProjectCreatorDefault = True, Locked = True\<rparr>] []
           = [(''required'', [''owner'', ''editor''])]"
    by (simp add: collectRequired_eq requiredNames_def)
  moreover have "hd (calls (Create s P apiContext schema data)) = RoleTemplateList '''' NewSelector"
  proof -
    obtain r cs where a: "createProjectAnnotation s P = (r, cs)"
      by (cases "createProjectAnnotation s P")
    with snd_createProjectAnnotation [of s P] have "cs = [RoleTemplateList '''' NewSelector]"
      by simp
    with a show ?thesis
      by (cases r) (simp_all add: Create_def Let_def split: option.splits prod.splits)
  qed
  moreover have "Create s P apiContext schema data =
              \<lparr>ret_map = fst (Store_Create s apiContext schema
                                (values_PutValue P data (JStr d)
                                   [''annotations'', roleTemplatesRequired])),
               ret_err = snd (Store_Create s apiContext schema
                                (values_PutValue P data (JStr d)
                                   [''annotations'', roleTemplatesRequired])),
               calls = [RoleTemplateList '''' NewSelector,
                        StoreCreate apiContext schema
                          (values_PutValue P data (JStr d)
                             [''annotations'', roleTemplatesRequired])],
               data_after = values_PutValue P data (JStr d)
                              [''annotations'', roleTemplatesRequired]\<rparr>"
    if "json_Marshal P (collectRequired rt []) = Inr d"
      and "validateResourceQuota s P apiContext schema data '''' = None" for d
    using that assms
    by (simp add: Create_def createProjectAnnotation_def Let_def split: prod.splits)
  ultimately show ?thesis by blast
qed

text \<open>
  C3 with the three templates listed and the plain encoder: the annotation as text, and
  the create of a project that hands it to the store.
\<close>

theorem annotation_lists_required_witness:
  \<open>roleTemplateLister_List (demo_store demo_roleTemplates) '''' NewSelector
     = Inr demo_roleTemplates
   \<and> createProjectAnnotation (demo_store demo_roleTemplates) demo_packages
     = (Inr ''{"required":["owner","editor"]}'', [RoleTemplateList '''' NewSelector])
   \<and> json_Marshal demo_packages (collectRequired demo_roleTemplates [])
     = Inr ''{"required":["owner","editor"]}''
   \<and> validateResourceQuota (demo_store demo_roleTemplates) demo_packages () ()
       [''name'' \<mapsto> JStr ''team-a''] '''' = None
   \<and> Create (demo_store demo_roleTemplates) demo_packages () () [''name'' \<mapsto> JStr ''team-a'']
     = \<lparr>ret_map = Some [''name'' \<mapsto> JStr ''team-a'',
                        ''annotations'' \<mapsto>
                          JObj [roleTemplatesRequired \<mapsto>
                                  JStr ''{"required":["owner","editor"]}'']],
        ret_err = None,
        calls = [RoleTemplateList '''' NewSelector,
                 StoreCreate () ()
                   [''name'' \<mapsto> JStr ''team-a'',
                    ''annotations'' \<mapsto>
                      JObj [roleTemplatesRequired \<mapsto>
                              JStr ''{"required":["owner","editor"]}'']]],
        data_after = [''name'' \<mapsto> JStr ''team-a'',
                      ''annotations'' \<mapsto>
                        JObj [roleTemplatesRequired \<mapsto>
                                JStr ''{"required":["owner","editor"]}'']]\<rparr>\<close>
proof -
  let ?s = "demo_store demo_roleTemplates"
  let ?data = "[''name'' \<mapsto> JStr ''team-a'']"
  have l: "roleTemplateLister_List ?s '''' NewSelector = Inr demo_roleTemplates"
    by (simp add: demo_store_def)
  have m: \<open>json_Marshal demo_packages (collectRequired demo_roleTemplates [])
             = Inr ''{"required":["owner","editor"]}''\<close>
    by (simp add: demo_packages_def collectRequired_eq requiredNames_def demo_roleTemplates_def
        Marshal_plain_def json_string_def)
  have "\<not> present ?data quotaField" and "\<not> present ?data namespaceQuotaField"
    by (simp_all add: present_def quotaField_def namespaceQuotaField_def)
  then have v: "validateResourceQuota ?s demo_packages () () ?data '''' = None"
    by (simp add: validate_checked [where nsQuotaLimit = "[]" and projectQuotaLimit = "[]"]
        index_data_fst_absent demo_conversions demo_fit)
  note t = annotation_lists_required [OF l, of demo_packages "()" "()" ?data]
  from t m have a: \<open>fst (createProjectAnnotation ?s demo_packages)
                      = Inr ''{"required":["owner","editor"]}''\<close>
    by simp
  with snd_createProjectAnnotation [of ?s demo_packages]
  have a': \<open>createProjectAnnotation ?s demo_packages
              = (Inr ''{"required":["owner","editor"]}'', [RoleTemplateList '''' NewSelector])\<close>
    by (cases "createProjectAnnotation ?s demo_packages") simp
  from t m v have c: \<open>Create ?s demo_packages () () ?data =
              \<lparr>ret_map = fst (Store_Create ?s () ()
                                (values_PutValue demo_packages ?data
                                   (JStr ''{"required":["owner","editor"]}'')
                                   [''annotations'', roleTemplatesRequired])),
               ret_err = snd (Store_Create ?s () ()
                                (values_PutValue demo_packages ?data
                                   (JStr ''{"required":["owner","editor"]}'')
                                   [''annotations'', roleTemplatesRequired])),
               calls = [RoleTemplateList '''' NewSelector,
                        StoreCreate () ()
                          (values_PutValue demo_packages ?data
                             (JStr ''{"required":["owner","editor"]}'')
                             [''annotations'', roleTemplatesRequired])],
               data_after = values_PutValue demo_packages ?data
                              (JStr ''{"required":["owner","editor"]}'')
                              [''annotations'', roleTemplatesRequired]\<rparr>\<close>
    by blast
  have p: "values_PutValue demo_packages = PutValue"
    by (simp add: demo_packages_def)
  have st: "Store_Create ?s () () d = (Some d, None)" for d
    by (simp add: demo_store_def)
  from l a' m v c show ?thesis
    by (simp add: p st)
qed

text \<open>
  Claim C4. When both quota fields are present, the conversions succeed and the fit
  checker reports not-fit with message \<open>msg\<close> and no error, validation returns a
  MaxLimitExceeded field error for the field \<^verbatim>\<open>namespaceDefaultResourceQuota\<close> whose
  message is ``exceeds resourceQuota on fields: '' followed by \<open>msg\<close>, the checker's
  list of violating resources.
\<close>

theorem not_fit_max_limit_exceeded:
  assumes "data quotaField = Some quotaO" and "quotaO \<noteq> JNull"
    and "data namespaceQuotaField = Some nsQuotaO" and "nsQuotaO \<noteq> JNull"
    and "convert_ToObj_nsQuota P nsQuotaO = Inr nsQuota"
    and "convert_ToObj_projectQuota P quotaO = Inr projectQuota"
    and "limitToLimit P (projectQuota_Limit projectQuota) = Inr projectQuotaLimit"
    and "limitToLimit P (nsQuota_Limit nsQuota) = Inr nsQuotaLimit"
    and "resourcequota_IsQuotaFit P nsQuotaLimit [] projectQuotaLimit = (False, msg, None)"
  shows "validateResourceQuota s P apiContext schema data id' =
           Some (APIError MaxLimitExceeded (''exceeds resourceQuota on fields: '' @ msg)
                   ''namespaceDefaultResourceQuota'')"
proof -
  have "present data quotaField = present data namespaceQuotaField"
    using assms(1-4) by (simp add: present_Some)
  moreover have "convert_ToObj_nsQuota P (fst (index_data data namespaceQuotaField)) = Inr nsQuota"
    using assms(3,5) by (simp add: index_data_Some)
  moreover have "convert_ToObj_projectQuota P (fst (index_data data quotaField)) = Inr projectQuota"
    using assms(1,6) by (simp add: index_data_Some)
  ultimately show ?thesis
    using assms(7-9) by (simp add: validate_checked)
qed

text \<open>C4 on a project with 10 pods whose namespaces would get 20 by default.\<close>

theorem not_fit_max_limit_exceeded_witness:
  "demo_project 10 20 quotaField = Some (demo_quota 10) \<and> demo_quota 10 \<noteq> JNull
   \<and> demo_project 10 20 namespaceQuotaField = Some (demo_quota 20) \<and> demo_quota 20 \<noteq> JNull
   \<and> resourcequota_IsQuotaFit demo_packages [(''pods'', 20)] [] [(''pods'', 10)]
       = (False, ''pods'', None)
   \<and> validateResourceQuota (demo_store []) demo_packages () () (demo_project 10 20) ''c-1:p-1''
       = Some (APIError MaxLimitExceeded ''exceeds resourceQuota on fields: pods''
                 ''namespaceDefaultResourceQuota'')"
proof -
  have f: "resourcequota_IsQuotaFit demo_packages [(''pods'', 20)] [] [(''pods'', 10)]
             = (False, ''pods'', None)"
    by (simp add: demo_fit)
  from not_fit_max_limit_exceeded
         [of "demo_project 10 20" "demo_quota 10" "demo_quota 20" demo_packages
             "\<lparr>nsQuota_Limit = Some [(''pods'', 20)]\<rparr>"
             "\<lparr>projectQuota_Limit = Some [(''pods'', 10)]\<rparr>"
             "[(''pods'', 10)]" "[(''pods'', 20)]" "''pods''"
             "demo_store []" "()" "()" "''c-1:p-1''"]
       f
  show ?thesis
    by (simp add: demo_project_fields demo_conversions)
qed

text \<open>
  Claim C5, as stated, fails: a create succeeds while no role template is both
  project-creator-default and unlocked. The map that is encoded then has no key at all,
  and the annotation handed to the store is the text \<^verbatim>\<open>{}\<close>, an object without the
  key \<^verbatim>\<open>required\<close>.
\<close>

theorem create_without_required_key:
  "Create (demo_store [\<lparr>Name = ''legacy'', ProjectCreatorDefault = True, Locked = True\<rparr>])
     demo_packages () () [''name'' \<mapsto> JStr ''team-a'']
   = \<lparr>ret_map = Some [''name'' \<mapsto> JStr ''team-a'',
                      ''annotations'' \<mapsto> JObj [roleTemplatesRequired \<mapsto> JStr ''{}'']],
      ret_err = None,
      calls = [RoleTemplateList '''' NewSelector,
               StoreCreate () ()
                 [''name'' \<mapsto> JStr ''team-a'',
                  ''annotations'' \<mapsto> JObj [roleTemplatesRequired \<mapsto> JStr ''{}'']]],
      data_after = [''name'' \<mapsto> JStr ''team-a'',
                    ''annotations'' \<mapsto> JObj [roleTemplatesRequired \<mapsto> JStr ''{}'']]\<rparr>
   \<and> map fst (collectRequired
                [\<lparr>Name = ''legacy'', ProjectCreatorDefault = True, Locked = True\<rparr>] [])
       \<noteq> [''required'']"
proof -
  let ?s = "demo_store [\<lparr>Name = ''legacy'', ProjectCreatorDefault = True, Locked = True\<rparr>]"
  let ?data = "[''name'' \<mapsto> JStr ''team-a'']"
  have a: "createProjectAnnotation ?s demo_packages
             = (Inr ''{}'', [RoleTemplateList '''' NewSelector])"
    by (simp add: demo_annotation requiredNames_def Marshal_plain_def)
  have "\<not> present ?data quotaField" and "\<not> present ?data namespaceQuotaField"
    by (simp_all add: present_def quotaField_def namespaceQuotaField_def)
  then have v: "validateResourceQuota ?s demo_packages () () ?data '''' = None"
    by (simp add: validate_checked [where nsQuotaLimit = "[]" and projectQuotaLimit = "[]"]
        index_data_fst_absent demo_conversions demo_fit)
  have p: "values_PutValue demo_packages ?data (JStr ''{}'') [''annotations'', roleTemplatesRequired]
             = [''name'' \<mapsto> JStr ''team-a'',
                ''annotations'' \<mapsto> JObj [roleTemplatesRequired \<mapsto> JStr ''{}'']]"
    by (simp add: demo_packages_def)
  have c: "Store_Create ?s () () d = (Some d, None)" for d
    by (simp add: demo_store_def)
  show ?thesis
    by (simp add: Create_def Let_def a v p c collectRequired_eq requiredNames_def)
qed

text \<open>
  Claim C5, amended. On every successful create the listing of the role templates and
  the encoding have succeeded, and the value that \<^verbatim>\<open>values.PutValue\<close> is given for the
  reserved annotation key, in the payload that the store then receives, is the JSON
  encoding of a map with the single key \<^verbatim>\<open>required\<close> and the names of the default,
  unlocked role templates in listing order when there is such a template, and the
  encoding of the empty map when there is none.
\<close>

theorem successful_create_annotation:
  assumes "ret_err (Create s P apiContext schema data) = None"
  shows "\<exists>rt d.
           roleTemplateLister_List s '''' NewSelector = Inr rt
         \<and> json_Marshal P (if requiredNames rt = [] then []
                            else [(''required'', requiredNames rt)]) = Inr d
         \<and> data_after (Create s P apiContext schema data)
             = values_PutValue P data (JStr d) [''annotations'', roleTemplatesRequired]
         \<and> calls (Create s P apiContext schema data)
             = [RoleTemplateList '''' NewSelector,
                StoreCreate apiContext schema
                  (values_PutValue P data (JStr d) [''annotations'', roleTemplatesRequired])]"
proof (cases "roleTemplateLister_List s '''' NewSelector")
  case (Inl err)
  then have "ret_err (Create s P apiContext schema data) = Some err"
    by (simp add: Create_def createProjectAnnotation_def)
  with assms show ?thesis by simp
next
  case (Inr rt)
  show ?thesis
  proof (cases "json_Marshal P (collectRequired rt [])")
    case (Inl err)
    with Inr have "ret_err (Create s P apiContext schema data) = Some err"
      by (simp add: Create_def createProjectAnnotation_def)
    with assms show ?thesis by simp
  next
    case m: (Inr d)
    show ?thesis
    proof (cases "validateResourceQuota s P apiContext schema data ''''")
      case (Some err)
      with Inr m have "ret_err (Create s P apiContext schema data) = Some err"
        by (simp add: Create_def createProjectAnnotation_def)
      with assms show ?thesis by simp
    next
      case None
      with Inr m have
        "data_after (Create s P apiContext schema data)
           = values_PutValue P data (JStr d) [''annotations'', roleTemplatesRequired]"
        "calls (Create s P apiContext schema data)
           = [RoleTemplateList '''' NewSelector,
              StoreCreate apiContext schema
                (values_PutValue P data (JStr d) [''annotations'', roleTemplatesRequired])]"
        by (simp_all add: Create_def createProjectAnnotation_def Let_def split: prod.splits)
      moreover from m have
        "json_Marshal P (if requiredNames rt = [] then []
                         else [(''required'', requiredNames rt)]) = Inr d"
        by (simp add: collectRequired_eq)
      ultimately show ?thesis using Inr by blast
    qed
  qed
qed

text \<open>C5 amended, on a create with the three templates listed.\<close>

theorem successful_create_annotation_witness:
  \<open>ret_err (Create (demo_store demo_roleTemplates) demo_packages () ()
              [''name'' \<mapsto> JStr ''team-a'']) = None
   \<and> (\<exists>rt d.
         roleTemplateLister_List (demo_store demo_roleTemplates) '''' NewSelector = Inr rt
       \<and> json_Marshal demo_packages
           (if requiredNames rt = [] then [] else [(''required'', requiredNames rt)]) = Inr d
       \<and> data_after (Create (demo_store demo_roleTemplates) demo_packages () ()
                       [''name'' \<mapsto> JStr ''team-a''])
           = values_PutValue demo_packages [''name'' \<mapsto> JStr ''team-a''] (JStr d)
               [''annotations'', roleTemplatesRequired]
       \<and> calls (Create (demo_store demo_roleTemplates) demo_packages () ()
                  [''name'' \<mapsto> JStr ''team-a''])
           = [RoleTemplateList '''' NewSelector,
              StoreCreate () ()
                (values_PutValue demo_packages [''name'' \<mapsto> JStr ''team-a''] (JStr d)
                   [''annotations'', roleTemplatesRequired])])
   \<and> data_after (Create (demo_store demo_roleTemplates) demo_packages () ()
                   [''name'' \<mapsto> JStr ''team-a''])
       = [''name'' \<mapsto> JStr ''team-a'',
          ''annotations'' \<mapsto>
             JObj [roleTemplatesRequired \<mapsto> JStr ''{"required":["owner","editor"]}'']]\<close>
proof -
  let ?s = "demo_store demo_roleTemplates"
  let ?data = "[''name'' \<mapsto> JStr ''team-a'']"
  have a: \<open>createProjectAnnotation ?s demo_packages
             = (Inr ''{"required":["owner","editor"]}'', [RoleTemplateList '''' NewSelector])\<close>
    by (simp add: demo_annotation requiredNames_def demo_roleTemplates_def Marshal_plain_def
        json_string_def)
  have "\<not> present ?data quotaField" and "\<not> present ?data namespaceQuotaField"
    by (simp_all add: present_def quotaField_def namespaceQuotaField_def)
  then have v: "validateResourceQuota ?s demo_packages () () ?data '''' = None"
    by (simp add: validate_checked [where nsQuotaLimit = "[]" and projectQuotaLimit = "[]"]
        index_data_fst_absent demo_conversions demo_fit)
  have c: "Store_Create ?s () () d = (Some d, None)" for d
    by (simp add: demo_store_def)
  have p: "values_PutValue demo_packages = PutValue"
    by (simp add: demo_packages_def)
  have r: "ret_err (Create ?s demo_packages () () ?data) = None"
    by (simp add: Create_def Let_def a v c)
  have d: \<open>data_after (Create ?s demo_packages () () ?data)
       = [''name'' \<mapsto> JStr ''team-a'',
          ''annotations'' \<mapsto>
             JObj [roleTemplatesRequired \<mapsto> JStr ''{"required":["owner","editor"]}'']]\<close>
    by (simp add: Create_def Let_def a v c p)
  from successful_create_annotation [OF r] r d show ?thesis
    by blast
qed

text \<open>
  Claim C6. For every payload in which both quota fields are absent or nil, validation
  passes and the write is handed to the store: Update calls the store's Update with
  the payload, and Create, once the annotation is computed, calls the store's Create
  with the payload that \<^verbatim>\<open>values.PutValue\<close> returns. The code has no shortcut for this
  case: it converts the two nil values and calls the fit checker on the results. The
  property is proved with the converters and the checker modelled from the spec, for
  every store, encoder, \<^verbatim>\<open>values.PutValue\<close>, quantity parser and conversion of values
  other than nil.
\<close>

theorem both_absent_passes:
  assumes "\<not> present data quotaField" and "\<not> present data namespaceQuotaField"
  shows "validateResourceQuota s
           (spec_packages marshal putValue toNsQuota toProjectQuota toLimit parse)
           apiContext schema data id' = None
       \<and> Update s (spec_packages marshal putValue toNsQuota toProjectQuota toLimit parse)
           apiContext schema data id' =
           \<lparr>ret_map = fst (Store_Update s apiContext schema data id'),
            ret_err = snd (Store_Update s apiContext schema data id'),
            calls = [StoreUpdate apiContext schema data id'],
            data_after = data\<rparr>
       \<and> (\<forall>annotation.
            fst (createProjectAnnotation s
                   (spec_packages marshal putValue toNsQuota toProjectQuota toLimit parse))
              = Inr annotation \<longrightarrow>
            Create s (spec_packages marshal putValue toNsQuota toProjectQuota toLimit parse)
              apiContext schema data =
              \<lparr>ret_map = fst (Store_Create s apiContext schema
                                (putValue data (JStr annotation)
                                   [''annotations'', roleTemplatesRequired])),
               ret_err = snd (Store_Create s apiContext schema
                                (putValue data (JStr annotation)
                                   [''annotations'', roleTemplatesRequired])),
               calls = [RoleTemplateList '''' NewSelector,
                        StoreCreate apiContext schema
                          (putValue data (JStr annotation)
                             [''annotations'', roleTemplatesRequired])],
               data_after = putValue data (JStr annotation)
                              [''annotations'', roleTemplatesRequired]\<rparr>)"
proof -
  let ?P = "spec_packages marshal putValue toNsQuota toProjectQuota toLimit parse"
  have v: "validateResourceQuota s ?P apiContext schema data i = None" for i
    using assms
    by (simp add: validate_checked [where nsQuotaLimit = "[]" and projectQuotaLimit = "[]"]
        index_data_fst_absent spec_nil_conversions spec_empty_fits)
  have u: "Update s ?P apiContext schema data id' =
             \<lparr>ret_map = fst (Store_Update s apiContext schema data id'),
              ret_err = snd (Store_Update s apiContext schema data id'),
              calls = [StoreUpdate apiContext schema data id'],
              data_after = data\<rparr>"
    by (simp add: Update_def v split: prod.splits)
  have c: "Create s ?P apiContext schema data =
             \<lparr>ret_map = fst (Store_Create s apiContext schema
                               (putValue data (JStr annotation)
                                  [''annotations'', roleTemplatesRequired])),
              ret_err = snd (Store_Create s apiContext schema
                               (putValue data (JStr annotation)
                                  [''annotations'', roleTemplatesRequired])),
              calls = [RoleTemplateList '''' NewSelector,
                       StoreCreate apiContext schema
                         (putValue data (JStr annotation)
                            [''annotations'', roleTemplatesRequired])],
              data_after = putValue data (JStr annotation)
                             [''annotations'', roleTemplatesRequired]\<rparr>"
    if "fst (createProjectAnnotation s ?P) = Inr annotation" for annotation
  proof -
    from that snd_createProjectAnnotation [of s ?P]
    have "createProjectAnnotation s ?P = (Inr annotation, [RoleTemplateList '''' NewSelector])"
      by (cases "createProjectAnnotation s ?P") simp
    moreover have "values_PutValue ?P = putValue"
      by (simp add: spec_packages_def)
    ultimately show ?thesis
      by (simp add: Create_def v Let_def split: prod.splits)
  qed
  from v u c show ?thesis by blast
qed

text \<open>
  C6 on a payload without quota fields, updated and created, and on one whose two quota
  fields are nil, with a parser and conversions that reject whatever they are given.
\<close>

theorem both_absent_passes_witness:
  \<open>\<not> present [''name'' \<mapsto> JStr ''team-a''] quotaField
   \<and> \<not> present [''name'' \<mapsto> JStr ''team-a''] namespaceQuotaField
   \<and> validateResourceQuota (demo_store demo_roleTemplates) spec_demo_packages () ()
       [''name'' \<mapsto> JStr ''team-a''] ''c-1:p-1'' = None
   \<and> Update (demo_store demo_roleTemplates) spec_demo_packages () ()
       [''name'' \<mapsto> JStr ''team-a''] ''c-1:p-1''
       = \<lparr>ret_map = Some [''name'' \<mapsto> JStr ''team-a''], ret_err = None,
          calls = [StoreUpdate () () [''name'' \<mapsto> JStr ''team-a''] ''c-1:p-1''],
          data_after = [''name'' \<mapsto> JStr ''team-a'']\<rparr>
   \<and> calls (Create (demo_store demo_roleTemplates) spec_demo_packages () ()
       [''name'' \<mapsto> JStr ''team-a''])
       = [RoleTemplateList '''' NewSelector,
          StoreCreate () ()
            [''name'' \<mapsto> JStr ''team-a'',
             ''annotations'' \<mapsto>
               JObj [roleTemplatesRequired \<mapsto> JStr ''{"required":["owner","editor"]}'']]]
   \<and> \<not> present [''resourceQuota'' \<mapsto> JNull, ''namespaceDefaultResourceQuota'' \<mapsto> JNull]
         quotaField
   \<and> \<not> present [''resourceQuota'' \<mapsto> JNull, ''namespaceDefaultResourceQuota'' \<mapsto> JNull]
         namespaceQuotaField
   \<and> validateResourceQuota (demo_store demo_roleTemplates) spec_demo_packages () ()
       [''resourceQuota'' \<mapsto> JNull, ''namespaceDefaultResourceQuota'' \<mapsto> JNull] '''' = None\<close>
proof -
  let ?data = "[''name'' \<mapsto> JStr ''team-a'']"
  let ?nil = "[''resourceQuota'' \<mapsto> JNull, ''namespaceDefaultResourceQuota'' \<mapsto> JNull]"
  let ?s = "demo_store demo_roleTemplates"
  have a: "\<not> present ?data quotaField" "\<not> present ?data namespaceQuotaField"
    by (simp_all add: present_def quotaField_def namespaceQuotaField_def)
  have n: "\<not> present ?nil quotaField" "\<not> present ?nil namespaceQuotaField"
    by (simp_all add: present_def quotaField_def namespaceQuotaField_def)
  have an: \<open>fst (createProjectAnnotation ?s spec_demo_packages)
              = Inr ''{"required":["owner","editor"]}''\<close>
    by (simp add: createProjectAnnotation_def demo_store_def spec_demo_packages_def
        spec_packages_def collectRequired_eq requiredNames_def demo_roleTemplates_def
        Marshal_plain_def json_string_def)
  have st: "Store_Update ?s () () d i = (Some d, None)" for d i
    by (simp add: demo_store_def)
  have p: \<open>PutValue ?data (JStr ''{"required":["owner","editor"]}'')
             [''annotations'', roleTemplatesRequired]
           = [''name'' \<mapsto> JStr ''team-a'',
              ''annotations'' \<mapsto>
                JObj [roleTemplatesRequired \<mapsto> JStr ''{"required":["owner","editor"]}'']]\<close>
    by simp
  note t1 = both_absent_passes
         [OF a, of ?s Marshal_plain PutValue "\<lambda>v. Inl (OtherError ''malformed quota'')"
            "\<lambda>v. Inl (OtherError ''malformed quota'')"
            "\<lambda>l::unit. Inl (OtherError ''malformed limit'')"
            "\<lambda>q. Inl (OtherError ''malformed quantity'')" "()" "()" "''c-1:p-1''",
          folded spec_demo_packages_def]
  note t2 = both_absent_passes
         [OF n, of ?s Marshal_plain PutValue "\<lambda>v. Inl (OtherError ''malformed quota'')"
            "\<lambda>v. Inl (OtherError ''malformed quota'')"
            "\<lambda>l::unit. Inl (OtherError ''malformed limit'')"
            "\<lambda>q. Inl (OtherError ''malformed quantity'')" "()" "()" "''''",
          folded spec_demo_packages_def]
  from t1 have v1: "validateResourceQuota ?s spec_demo_packages () () ?data ''c-1:p-1'' = None"
    by blast
  from t1 have u1: "Update ?s spec_demo_packages () () ?data ''c-1:p-1'' =
           \<lparr>ret_map = fst (Store_Update ?s () () ?data ''c-1:p-1''),
            ret_err = snd (Store_Update ?s () () ?data ''c-1:p-1''),
            calls = [StoreUpdate () () ?data ''c-1:p-1''],
            data_after = ?data\<rparr>"
    by blast
  from t1 an have c1: \<open>calls (Create ?s spec_demo_packages () () ?data) =
           [RoleTemplateList '''' NewSelector,
            StoreCreate () ()
              (PutValue ?data (JStr ''{"required":["owner","editor"]}'')
                 [''annotations'', roleTemplatesRequired])]\<close>
    by simp
  from t2 have v2: "validateResourceQuota ?s spec_demo_packages () () ?nil '''' = None"
    by blast
  from v1 u1 c1 v2 a n show ?thesis
    by (simp add: st p)
qed

text \<open>
  Claim C7. Errors of collaborators are returned as they are. If the fit checker, once
  reached, returns an error, validation returns that error, whatever the checker says
  about the fit. If the lookup of the project fails, Delete returns the error of the
  lookup and nil, after the lookup as its only call. If the listing of the role
  templates fails, Create returns the error of the listing and nil, after the listing
  as its only call.
\<close>

theorem collaborator_errors_unchanged:
  "(present data quotaField = present data namespaceQuotaField
      \<and> convert_ToObj_nsQuota P (fst (index_data data namespaceQuotaField)) = Inr nsQuota
      \<and> convert_ToObj_projectQuota P (fst (index_data data quotaField)) = Inr projectQuota
      \<and> limitToLimit P (projectQuota_Limit projectQuota) = Inr projectQuotaLimit
      \<and> limitToLimit P (nsQuota_Limit nsQuota) = Inr nsQuotaLimit
      \<and> resourcequota_IsQuotaFit P nsQuotaLimit [] projectQuotaLimit = (isFit, msg, Some fitErr)
    \<longrightarrow> validateResourceQuota s P apiContext schema data id' = Some fitErr)
   \<and> (projectLister_Get s (hd (strings_Split id' (CHR '':'')))
         (last (strings_Split id' (CHR '':''))) = Inl getErr
    \<longrightarrow> Delete s apiContext schema id' =
          \<lparr>ret_map = None, ret_err = Some getErr,
           calls = [ProjectGet (hd (strings_Split id' (CHR '':'')))
                      (last (strings_Split id' (CHR '':'')))]\<rparr>)
   \<and> (roleTemplateLister_List s '''' NewSelector = Inl listErr
    \<longrightarrow> Create s P apiContext schema data =
          \<lparr>ret_map = None, ret_err = Some listErr,
           calls = [RoleTemplateList '''' NewSelector], data_after = data\<rparr>)"
proof (intro conjI impI)
  assume "present data quotaField = present data namespaceQuotaField
      \<and> convert_ToObj_nsQuota P (fst (index_data data namespaceQuotaField)) = Inr nsQuota
      \<and> convert_ToObj_projectQuota P (fst (index_data data quotaField)) = Inr projectQuota
      \<and> limitToLimit P (projectQuota_Limit projectQuota) = Inr projectQuotaLimit
      \<and> limitToLimit P (nsQuota_Limit nsQuota) = Inr nsQuotaLimit
      \<and> resourcequota_IsQuotaFit P nsQuotaLimit [] projectQuotaLimit = (isFit, msg, Some fitErr)"
  then show "validateResourceQuota s P apiContext schema data id' = Some fitErr"
    by (simp add: validate_checked)
next
  assume "projectLister_Get s (hd (strings_Split id' (CHR '':'')))
            (last (strings_Split id' (CHR '':''))) = Inl getErr"
  then show "Delete s apiContext schema id' =
          \<lparr>ret_map = None, ret_err = Some getErr,
           calls = [ProjectGet (hd (strings_Split id' (CHR '':'')))
                      (last (strings_Split id' (CHR '':'')))]\<rparr>"
    by (simp add: Delete_by_segments)
next
  assume "roleTemplateLister_List s '''' NewSelector = Inl listErr"
  then show "Create s P apiContext schema data =
          \<lparr>ret_map = None, ret_err = Some listErr,
           calls = [RoleTemplateList '''' NewSelector], data_after = data\<rparr>"
    by (simp add: Create_def createProjectAnnotation_def)
qed

text \<open>
  C7 with a checker that fails to parse a quantity, a project that is not known, and a
  role template lister that fails.
\<close>

theorem collaborator_errors_unchanged_witness:
  "validateResourceQuota (demo_store [])
     (demo_packages\<lparr>resourcequota_IsQuotaFit :=
        \<lambda>nsLimit nsLimits projectLimit. (False, '''', Some (OtherError ''quantities must match''))\<rparr>)
     () () (demo_project 10 5) ''c-1:p-1''
     = Some (OtherError ''quantities must match'')
   \<and> Delete (demo_store []) () () ''c-1:p-404'' =
       \<lparr>ret_map = None, ret_err = Some (OtherError ''project not found''),
        calls = [ProjectGet ''c-1'' ''p-404'']\<rparr>
   \<and> Create (demo_store []\<lparr>roleTemplateLister_List :=
                \<lambda>namespace selector. Inl (OtherError ''cache not synced'')\<rparr>)
       demo_packages () () (demo_project 10 5) =
       \<lparr>ret_map = None, ret_err = Some (OtherError ''cache not synced''),
        calls = [RoleTemplateList '''' NewSelector], data_after = demo_project 10 5\<rparr>"
proof -
  let ?P = "demo_packages\<lparr>resourcequota_IsQuotaFit :=
        \<lambda>nsLimit nsLimits projectLimit. (False, '''', Some (OtherError ''quantities must match''))\<rparr>"
  let ?s = "demo_store []\<lparr>roleTemplateLister_List :=
                \<lambda>namespace selector. Inl (OtherError ''cache not synced'')\<rparr>"
  have c: "convert_ToObj_nsQuota ?P = convert_ToObj_nsQuota demo_packages"
    "convert_ToObj_projectQuota ?P = convert_ToObj_projectQuota demo_packages"
    "limitToLimit ?P = limitToLimit demo_packages"
    by (simp_all add: limitToLimit_def fun_eq_iff)
  have h1: "present (demo_project 10 5) quotaField = present (demo_project 10 5) namespaceQuotaField
      \<and> convert_ToObj_nsQuota ?P (fst (index_data (demo_project 10 5) namespaceQuotaField))
          = Inr \<lparr>nsQuota_Limit = Some [(''pods'', 5)]\<rparr>
      \<and> convert_ToObj_projectQuota ?P (fst (index_data (demo_project 10 5) quotaField))
          = Inr \<lparr>projectQuota_Limit = Some [(''pods'', 10)]\<rparr>
      \<and> limitToLimit ?P (projectQuota_Limit \<lparr>projectQuota_Limit = Some [(''pods'', 10)]\<rparr>)
          = Inr [(''pods'', 10)]
      \<and> limitToLimit ?P (nsQuota_Limit \<lparr>nsQuota_Limit = Some [(''pods'', 5)]\<rparr>)
          = Inr [(''pods'', 5)]
      \<and> resourcequota_IsQuotaFit ?P [(''pods'', 5)] [] [(''pods'', 10)]
          = (False, '''', Some (OtherError ''quantities must match''))"
    by (simp add: c demo_conversions index_data_Some demo_project_fields present_Some)
  have h2: "projectLister_Get (demo_store []) (hd (strings_Split ''c-1:p-404'' (CHR '':'')))
              (last (strings_Split ''c-1:p-404'' (CHR '':''))) = Inl (OtherError ''project not found'')"
    by (simp add: demo_store_def demo_Get_def)
  have h3: "roleTemplateLister_List ?s '''' NewSelector = Inl (OtherError ''cache not synced'')"
    by simp
  from collaborator_errors_unchanged
         [of "demo_project 10 5" ?P "\<lparr>nsQuota_Limit = Some [(''pods'', 5)]\<rparr>"
             "\<lparr>projectQuota_Limit = Some [(''pods'', 10)]\<rparr>" "[(''pods'', 10)]" "[(''pods'', 5)]"
             False "''''" "OtherError ''quantities must match''" "demo_store []" "()" "()"
             "''c-1:p-1''"]
       h1
  have r1: "validateResourceQuota (demo_store []) ?P () () (demo_project 10 5) ''c-1:p-1''
              = Some (OtherError ''quantities must match'')"
    by blast
  from collaborator_errors_unchanged
         [where s = "demo_store []" and id' = "''c-1:p-404''"
            and getErr = "OtherError ''project not found''" and apiContext = "()" and schema = "()"
            and P = demo_packages and data = "demo_project 10 5"]
       h2
  have "Delete (demo_store []) () () ''c-1:p-404'' =
       \<lparr>ret_map = None, ret_err = Some (OtherError ''project not found''),
        calls = [ProjectGet (hd (strings_Split ''c-1:p-404'' (CHR '':'')))
                   (last (strings_Split ''c-1:p-404'' (CHR '':'')))]\<rparr>"
    by blast
  then have r2: "Delete (demo_store []) () () ''c-1:p-404'' =
       \<lparr>ret_map = None, ret_err = Some (OtherError ''project not found''),
        calls = [ProjectGet ''c-1'' ''p-404'']\<rparr>"
    by simp
  from collaborator_errors_unchanged
         [where s = ?s and listErr = "OtherError ''cache not synced''" and P = demo_packages
            and apiContext = "()" and schema = "()" and data = "demo_project 10 5"]
       h3
  have r3: "Create ?s demo_packages () () (demo_project 10 5) =
       \<lparr>ret_map = None, ret_err = Some (OtherError ''cache not synced''),
        calls = [RoleTemplateList '''' NewSelector], data_after = demo_project 10 5\<rparr>"
    by blast
  from r1 r2 r3 show ?thesis by blast
qed

text \<open>
  Claim C8. Delete splits the id at every \<^verbatim>\<open>:\<close> and its first call is the lookup of
  the project with the first part as the cluster and the last part as the name. The
  parts are those of \<^verbatim>\<open>strings.Split\<close>: there is at least one, none contains a
  \<^verbatim>\<open>:\<close>, and joined by \<^verbatim>\<open>:\<close> they give the id back. An id without \<^verbatim>\<open>:\<close> is its
  own only part, so that it is looked up as both the cluster and the name.
\<close>

theorem Delete_resolves_by_segments:
  "hd (calls (Delete s apiContext schema id'))
     = ProjectGet (hd (strings_Split id' (CHR '':''))) (last (strings_Split id' (CHR '':'')))
   \<and> strings_Split id' (CHR '':'') \<noteq> []
   \<and> (\<forall>part \<in> set (strings_Split id' (CHR '':'')). CHR '':'' \<notin> set part)
   \<and> strings_Join (strings_Split id' (CHR '':'')) '':'' = id'
   \<and> (CHR '':'' \<notin> set id' \<longrightarrow>
        strings_Split id' (CHR '':'') = [id']
        \<and> hd (calls (Delete s apiContext schema id')) = ProjectGet id' id')"
proof -
  have c: "hd (calls (Delete s apiContext schema id'))
     = ProjectGet (hd (strings_Split id' (CHR '':''))) (last (strings_Split id' (CHR '':'')))"
    by (simp add: Delete_by_segments split: sum.splits)
  moreover have "CHR '':'' \<notin> set id' \<longrightarrow>
        strings_Split id' (CHR '':'') = [id']
        \<and> hd (calls (Delete s apiContext schema id')) = ProjectGet id' id'"
    by (simp add: c strings_Split_no_sep)
  ultimately show ?thesis
    using strings_Split_nonempty [of id' "CHR '':''"] strings_Join_Split [of id' "CHR '':''"]
      strings_Split_parts [of _ id' "CHR '':''"]
    by blast
qed

text \<open>C8 on an id with a cluster prefix, one without, and one with three parts.\<close>

theorem Delete_resolves_by_segments_witness:
  "hd (calls (Delete (demo_store []) () () ''c-1:p-1'')) = ProjectGet ''c-1'' ''p-1''
   \<and> CHR '':'' \<notin> set ''p-1''
   \<and> hd (calls (Delete (demo_store []) () () ''p-1'')) = ProjectGet ''p-1'' ''p-1''
   \<and> strings_Split ''a:b:c'' (CHR '':'') = [''a'', ''b'', ''c'']
   \<and> hd (calls (Delete (demo_store []) () () ''a:b:c'')) = ProjectGet ''a'' ''c''"
  using Delete_resolves_by_segments [of "demo_store []" "()" "()" "''c-1:p-1''"]
    Delete_resolves_by_segments [of "demo_store []" "()" "()" "''p-1''"]
    Delete_resolves_by_segments [of "demo_store []" "()" "()" "''a:b:c''"]
  by simp

text \<open>
  Claim C9. The result of \<^verbatim>\<open>validateResourceQuota\<close> does not depend on its id
  argument: for any two ids, the empty id of Create among them, it is the same.
\<close>

theorem validate_ignores_id:
  "validateResourceQuota s P apiContext schema data id1
     = validateResourceQuota s P apiContext schema data id2"
  by (simp add: validateResourceQuota_def)

text \<open>C9 on a payload that is rejected, with the empty id and the id of a project.\<close>

theorem validate_ignores_id_witness:
  "validateResourceQuota (demo_store []) demo_packages () () (demo_project 10 20) ''''
     = validateResourceQuota (demo_store []) demo_packages () () (demo_project 10 20) ''c-1:p-1''
   \<and> validateResourceQuota (demo_store []) demo_packages () () (demo_project 10 20) ''''
     = Some (APIError MaxLimitExceeded ''exceeds resourceQuota on fields: pods''
               ''namespaceDefaultResourceQuota'')"
proof -
  have "validateResourceQuota (demo_store []) demo_packages () () (demo_project 10 20) ''c-1:p-1''
     = Some (APIError MaxLimitExceeded ''exceeds resourceQuota on fields: pods''
               ''namespaceDefaultResourceQuota'')"
    by (simp add: validate_checked
          [where nsQuotaLimit = "[(''pods'', 20)]" and projectQuotaLimit = "[(''pods'', 10)]"]
        demo_conversions demo_fit index_data_Some demo_project_fields present_Some)
  with validate_ignores_id
         [of "demo_store []" demo_packages "()" "()" "demo_project 10 20" "''''" "''c-1:p-1''"]
  show ?thesis by simp
qed

text \<open>
  Claim C10. A Create that fails before the store is reached changes nothing. If the
  annotation cannot be computed, or if it can and validation returns an error, Create
  returns that error and nil, its only call is the listing of the role templates, and
  the payload is as it was given: \<^verbatim>\<open>values.PutValue\<close> has not run.
\<close>

theorem Create_atomic_on_failure:
  "(fst (createProjectAnnotation s P) = Inl annoErr \<longrightarrow>
      Create s P apiContext schema data =
        \<lparr>ret_map = None, ret_err = Some annoErr,
         calls = [RoleTemplateList '''' NewSelector], data_after = data\<rparr>)
   \<and> (fst (createProjectAnnotation s P) = Inr annotation
      \<and> validateResourceQuota s P apiContext schema data '''' = Some quotaErr \<longrightarrow>
      Create s P apiContext schema data =
        \<lparr>ret_map = None, ret_err = Some quotaErr,
         calls = [RoleTemplateList '''' NewSelector], data_after = data\<rparr>)"
proof -
  obtain r cs where a: "createProjectAnnotation s P = (r, cs)"
    by (cases "createProjectAnnotation s P")
  with snd_createProjectAnnotation [of s P] have cs: "cs = [RoleTemplateList '''' NewSelector]"
    by simp
  show ?thesis
    by (simp add: Create_def a cs)
qed

text \<open>
  C10 on a create whose encoder fails, and on one whose namespace default quota exceeds
  the project quota.
\<close>

theorem Create_atomic_on_failure_witness:
  "fst (createProjectAnnotation (demo_store demo_roleTemplates)
          (demo_packages\<lparr>json_Marshal := \<lambda>m. Inl (OtherError ''json: unsupported value'')\<rparr>))
     = Inl (OtherError ''json: unsupported value'')
   \<and> Create (demo_store demo_roleTemplates)
       (demo_packages\<lparr>json_Marshal := \<lambda>m. Inl (OtherError ''json: unsupported value'')\<rparr>)
       () () (demo_project 10 5) =
       \<lparr>ret_map = None, ret_err = Some (OtherError ''json: unsupported value''),
        calls = [RoleTemplateList '''' NewSelector], data_after = demo_project 10 5\<rparr>
   \<and> validateResourceQuota (demo_store demo_roleTemplates) demo_packages () ()
       (demo_project 10 20) ''''
     = Some (APIError MaxLimitExceeded ''exceeds resourceQuota on fields: pods''
               ''namespaceDefaultResourceQuota'')
   \<and> Create (demo_store demo_roleTemplates) demo_packages () () (demo_project 10 20) =
       \<lparr>ret_map = None,
        ret_err = Some (APIError MaxLimitExceeded ''exceeds resourceQuota on fields: pods''
                          ''namespaceDefaultResourceQuota''),
        calls = [RoleTemplateList '''' NewSelector], data_after = demo_project 10 20\<rparr>"
proof -
  let ?s = "demo_store demo_roleTemplates"
  let ?P = "demo_packages\<lparr>json_Marshal := \<lambda>m. Inl (OtherError ''json: unsupported value'')\<rparr>"
  have a1: "fst (createProjectAnnotation ?s ?P) = Inl (OtherError ''json: unsupported value'')"
    by (simp add: createProjectAnnotation_def demo_store_def)
  have a2: "\<exists>annotation. fst (createProjectAnnotation ?s demo_packages) = Inr annotation"
    by (simp add: demo_annotation Marshal_plain_def)
  have v: "validateResourceQuota ?s demo_packages () () (demo_project 10 20) ''''
     = Some (APIError MaxLimitExceeded ''exceeds resourceQuota on fields: pods''
               ''namespaceDefaultResourceQuota'')"
    by (simp add: validate_checked
          [where nsQuotaLimit = "[(''pods'', 20)]" and projectQuotaLimit = "[(''pods'', 10)]"]
        demo_conversions demo_fit index_data_Some demo_project_fields present_Some)
  from a2 obtain annotation where a3: "fst (createProjectAnnotation ?s demo_packages) = Inr annotation"
    by blast
  from Create_atomic_on_failure
         [of ?s ?P "OtherError ''json: unsupported value''" "()" "()" "demo_project 10 5"] a1
  have r1: "Create ?s ?P () () (demo_project 10 5) =
       \<lparr>ret_map = None, ret_err = Some (OtherError ''json: unsupported value''),
        calls = [RoleTemplateList '''' NewSelector], data_after = demo_project 10 5\<rparr>"
    by blast
  from Create_atomic_on_failure
         [of ?s demo_packages _ "()" "()" "demo_project 10 20" annotation
            "APIError MaxLimitExceeded ''exceeds resourceQuota on fields: pods''
               ''namespaceDefaultResourceQuota''"] a3 v
  have r2: "Create ?s demo_packages () () (demo_project 10 20) =
       \<lparr>ret_map = None,
        ret_err = Some (APIError MaxLimitExceeded ''exceeds resourceQuota on fields: pods''
                          ''namespaceDefaultResourceQuota''),
        calls = [RoleTemplateList '''' NewSelector], data_after = demo_project 10 20\<rparr>"
    by blast
  from a1 r1 v r2 show ?thesis by blast
qed

end
